theory Spec2Isabelle
  imports Main
begin

section \<open>Strings\<close>

text \<open>
  The TypeScript strings of the service are modelled as \<open>string\<close>. The string
  functions below follow \<open>String.prototype.trim\<close>, \<open>toUpperCase\<close> and
  \<open>toLowerCase\<close> on ASCII text; theorems that depend on them say so with the
  hypothesis \<open>ascii\<close>.
\<close>

definition ascii :: "string \<Rightarrow> bool" where
  "ascii s = list_all (\<lambda>c. (of_char c :: nat) < 128) s"

definition lower_letters :: string where
  "lower_letters = ''abcdefghijklmnopqrstuvwxyz''"

definition upper_letters :: string where
  "upper_letters = ''ABCDEFGHIJKLMNOPQRSTUVWXYZ''"

definition digits :: string where
  "digits = ''0123456789''"

text \<open>The ASCII members of the class \<open>\s\<close>: TAB, LF, VT, FF, CR and the space.\<close>

definition isSpace :: "char \<Rightarrow> bool" where
  "isSpace c = (c \<in> set [CHR 0x09, CHR 0x0A, CHR 0x0B, CHR 0x0C, CHR 0x0D, CHR '' ''])"

definition upperChar :: "char \<Rightarrow> char" where
  "upperChar c = (case map_of (zip lower_letters upper_letters) c of Some u \<Rightarrow> u | None \<Rightarrow> c)"

definition lowerChar :: "char \<Rightarrow> char" where
  "lowerChar c = (case map_of (zip upper_letters lower_letters) c of Some l \<Rightarrow> l | None \<Rightarrow> c)"

definition toUpperCase :: "string \<Rightarrow> string" where
  "toUpperCase s = map upperChar s"

definition toLowerCase :: "string \<Rightarrow> string" where
  "toLowerCase s = map lowerChar s"

definition trim :: "string \<Rightarrow> string" where
  "trim s = rev (dropWhile isSpace (rev (dropWhile isSpace s)))"

subsection \<open>The regular expressions of the validators\<close>

text \<open>
  Both patterns of \<open>tickets.service.ts\<close> are anchored sequences of quantified
  character classes, so a pattern is a list of items \<open>Rep cls lo hi\<close>: between
  \<open>lo\<close> and \<open>hi\<close> characters of the class (\<open>None\<close>: no upper bound).
  \<open>matchItems\<close> is \<open>RegExp.prototype.test\<close> on such a pattern: it tries every
  admissible length for the first item and matches the rest against what remains.
\<close>

datatype item = Rep "char \<Rightarrow> bool" nat "nat option"

primrec matchItems :: "item list \<Rightarrow> string \<Rightarrow> bool" where
  "matchItems [] = (\<lambda>s. s = [])"
| "matchItems (r # rs) = (\<lambda>s. case r of Rep p lo hi \<Rightarrow>
     list_ex (\<lambda>k. list_all p (take k s) \<and> matchItems rs (drop k s))
       [lo ..< Suc (case hi of None \<Rightarrow> length s | Some h \<Rightarrow> min h (length s))])"

definition Lit :: "char \<Rightarrow> item" where
  "Lit x = Rep (\<lambda>c. c = x) 1 (Some 1)"

definition isAZ :: "char \<Rightarrow> bool" where
  "isAZ c = (c \<in> set upper_letters)"

definition isDigit :: "char \<Rightarrow> bool" where
  "isDigit c = (c \<in> set digits)"

definition notSpaceAt :: "char \<Rightarrow> bool" where
  "notSpaceAt c = (\<not> isSpace c \<and> c \<noteq> CHR ''@'')"

text \<open>\<^verbatim>\<open>/^[^\s@]+@[^\s@]+\.[^\s@]+$/\<close>\<close>

definition emailRegex :: "item list" where
  "emailRegex = [Rep notSpaceAt 1 None, Lit CHR ''@'', Rep notSpaceAt 1 None,
                 Lit CHR ''.'', Rep notSpaceAt 1 None]"

text \<open>\<^verbatim>\<open>/^[A-Z]{1,2}-\d{1,3}$/\<close>\<close>

definition seatRegex :: "item list" where
  "seatRegex = [Rep isAZ 1 (Some 2), Lit CHR ''-'', Rep isDigit 1 (Some 3)]"

definition isValidEmail :: "string \<Rightarrow> bool" where
  "isValidEmail email = matchItems emailRegex email"

definition isValidSeatNumber :: "string \<Rightarrow> bool" where
  "isValidSeatNumber seatNumber = matchItems seatRegex (toUpperCase seatNumber)"

section \<open>Entities and the store\<close>

type_synonym uuid = string

text \<open>A \<open>Date\<close> is its number of milliseconds since the epoch.\<close>

type_synonym date = int

datatype TicketStatus = RESERVED | PURCHASED | CANCELLED

record Movie =
  m_id :: uuid
  duration :: int

record Theater =
  th_id :: uuid
  capacity :: int
  is_active :: bool

text \<open>
  A row of \<open>showtimes\<close>; \<open>movie_id\<close> and \<open>theater_id\<close> are the join columns of
  the relations \<open>movie\<close> and \<open>theater\<close>. Prices are in hundredths
  (\<open>numeric(10,2)\<close>).
\<close>

record Showtime =
  s_id :: uuid
  start_time :: date
  end_time :: date
  s_price :: int
  sold_tickets :: int
  movie_id :: uuid
  theater_id :: uuid

record Ticket =
  t_id :: uuid
  customer_name :: string
  customer_email :: string
  seat_number :: string
  status :: TicketStatus
  t_price :: int
  showtime_id :: uuid

text \<open>The tables, each in insertion order.\<close>

record Database =
  movies :: "Movie list"
  theaters :: "Theater list"
  showtimes :: "Showtime list"
  tickets :: "Ticket list"

text \<open>The exceptions the services and repositories throw, with their messages.\<close>

datatype exn =
    NotFoundException string
  | BadRequestException string
  | ConflictException string
  | Error string
  | TypeError string

primrec message :: "exn \<Rightarrow> string" where
  "message (NotFoundException m) = m"
| "message (BadRequestException m) = m"
| "message (ConflictException m) = m"
| "message (Error m) = m"
| "message (TypeError m) = m"

text \<open>
  What a purchase or a cancellation does, in order: the calls on the store and the
  validations made on what they returned.
\<close>

datatype event =
    Begin
  | Commit
  | Rollback
  | FindShowtimeWithRelations uuid
  | FindTicketWithShowtimeDetails uuid
  | LockShowtime uuid
  | ReadShowtime uuid
  | ReadSeat uuid string
  | ReadTicket uuid
  | InsertTicket uuid
  | IncrementSold uuid
  | UpdateTicketStatus uuid
  | DecrementSold uuid
  | CheckStartTime
  | CheckCapacity
  | CheckSeat
  | CheckStatus

type_synonym 'a outcome = "(exn + 'a) \<times> Database \<times> event list"

text \<open>
  \<open>dataSource.transaction\<close>: the callback runs on the store; when it throws, its
  writes are rolled back and the exception goes on to the caller.
\<close>

definition transaction :: "(Database \<Rightarrow> 'a outcome) \<Rightarrow> Database \<Rightarrow> 'a outcome" where
  "transaction body db =
     (case body db of
        (Inl e, _, tr) \<Rightarrow> (Inl e, db, Begin # tr @ [Rollback])
      | (Inr r, db', tr) \<Rightarrow> (Inr r, db', Begin # tr @ [Commit]))"

text \<open>
  Reads of one row by primary key: \<open>findShowtime\<close> is \<open>findOne\<close> on showtimes
  (\<open>findById\<close>, \<open>findWithRelations\<close> and the reads of the transactions),
  \<open>findTheater\<close> the load of a theater (\<open>TheatersRepository.findById\<close> and the
  \<open>theater\<close> relation of a showtime). \<open>incrementSold\<close> is
  \<open>manager.increment\<close> on \<open>sold_tickets\<close>, and with a negative amount
  \<open>manager.decrement\<close>.
\<close>

definition findShowtime :: "Database \<Rightarrow> uuid \<Rightarrow> Showtime option" where
  "findShowtime db showtimeId = find (\<lambda>s. s_id s = showtimeId) (showtimes db)"

definition findTheater :: "Database \<Rightarrow> uuid \<Rightarrow> Theater option" where
  "findTheater db theaterId = find (\<lambda>t. th_id t = theaterId) (theaters db)"

definition incrementSold :: "uuid \<Rightarrow> int \<Rightarrow> Database \<Rightarrow> Database" where
  "incrementSold showtimeId n db =
     db\<lparr>showtimes := map (\<lambda>s. if s_id s = showtimeId
                                then s\<lparr>sold_tickets := sold_tickets s + n\<rparr> else s)
                          (showtimes db)\<rparr>"

section \<open>The ticket repository\<close>

record PurchaseTicketDto =
  dto_customer_name :: string
  dto_customer_email :: string
  dto_seat_number :: string

text \<open>
  \<open>newTicket\<close> is the entity \<open>manager.create\<close> builds in the purchase
  transaction. \<open>purchaseTicketWithTransaction\<close> of \<open>ticket.repository.ts\<close>. \<open>newId\<close> is
  the primary key the store generates for the inserted row. The first read takes the
  pessimistic write lock on the showtime row, the second one loads the same row with
  its theater; \<open>showtime.theater.capacity\<close> on a showtime without a theater row is
  a \<open>TypeError\<close>.
\<close>

definition newTicket :: "uuid \<Rightarrow> uuid \<Rightarrow> PurchaseTicketDto \<Rightarrow> Showtime \<Rightarrow> Ticket" where
  "newTicket newId showtimeId ticketData showtime =
     \<lparr>t_id = newId,
      customer_name = dto_customer_name ticketData,
      customer_email = dto_customer_email ticketData,
      seat_number = dto_seat_number ticketData,
      status = PURCHASED,
      t_price = s_price showtime,
      showtime_id = showtimeId\<rparr>"

definition purchaseTicketWithTransaction ::
  "uuid \<Rightarrow> uuid \<Rightarrow> PurchaseTicketDto \<Rightarrow> Database \<Rightarrow> (Ticket \<times> Showtime) outcome" where
  "purchaseTicketWithTransaction newId showtimeId ticketData =
     transaction (\<lambda>db.
       case findShowtime db showtimeId of
         None \<Rightarrow>
           (Inl (Error (''Showtime with ID '' @ showtimeId @ '' not found'')), db,
            [LockShowtime showtimeId])
       | Some lockedShowtime \<Rightarrow>
          (case findShowtime db showtimeId of
             None \<Rightarrow>
               (Inl (Error (''Showtime with ID '' @ showtimeId @ '' not found'')), db,
                [LockShowtime showtimeId, ReadShowtime showtimeId])
           | Some showtime \<Rightarrow>
              (case findTheater db (theater_id showtime) of
                 None \<Rightarrow>
                   (Inl (TypeError ''Cannot read properties of null''), db,
                    [LockShowtime showtimeId, ReadShowtime showtimeId])
               | Some theater \<Rightarrow>
                   if sold_tickets showtime \<ge> capacity theater then
                     (Inl (BadRequestException ''Showtime is sold out - no available seats''),
                      db,
                      [LockShowtime showtimeId, ReadShowtime showtimeId, CheckCapacity])
                   else
                     (case find (\<lambda>t. showtime_id t = showtimeId
                                    \<and> seat_number t = dto_seat_number ticketData
                                    \<and> status t = PURCHASED) (tickets db) of
                        Some existingTicket \<Rightarrow>
                          (Inl (BadRequestException
                                 (''Seat '' @ dto_seat_number ticketData @ '' is already occupied'')),
                           db,
                           [LockShowtime showtimeId, ReadShowtime showtimeId, CheckCapacity,
                            ReadSeat showtimeId (dto_seat_number ticketData), CheckSeat])
                      | None \<Rightarrow>
                          let ticket = newTicket newId showtimeId ticketData showtime;
                              db1 = db\<lparr>tickets := tickets db @ [ticket]\<rparr>;
                              db2 = incrementSold showtimeId 1 db1
                          in (Inr (ticket, showtime), db2,
                              [LockShowtime showtimeId, ReadShowtime showtimeId, CheckCapacity,
                               ReadSeat showtimeId (dto_seat_number ticketData), CheckSeat,
                               InsertTicket newId, IncrementSold showtimeId,
                               ReadTicket newId])))))"

text \<open>
  \<open>cancelTicketWithTransaction\<close>: the ticket is read with its showtime relation by a
  plain \<open>findOne\<close>; \<open>ticket.showtime.id\<close> on a ticket whose showtime row is
  missing is a \<open>TypeError\<close>, thrown after the status update and rolled back with it.
\<close>

definition cancelTicketWithTransaction :: "uuid \<Rightarrow> Database \<Rightarrow> Ticket outcome" where
  "cancelTicketWithTransaction ticketId =
     transaction (\<lambda>db.
       case find (\<lambda>t. t_id t = ticketId) (tickets db) of
         None \<Rightarrow>
           (Inl (Error (''Ticket with ID '' @ ticketId @ '' not found'')), db,
            [ReadTicket ticketId])
       | Some ticket \<Rightarrow>
           if status ticket \<noteq> PURCHASED then
             (Inl (Error ''Only purchased tickets can be cancelled''), db,
              [ReadTicket ticketId, CheckStatus])
           else
             let db1 = db\<lparr>tickets := map (\<lambda>t. if t_id t = ticketId
                                                 then t\<lparr>status := CANCELLED\<rparr> else t)
                                           (tickets db)\<rparr>
             in (case findShowtime db (showtime_id ticket) of
                   None \<Rightarrow>
                     (Inl (TypeError ''Cannot read properties of null''), db1,
                      [ReadTicket ticketId, CheckStatus, UpdateTicketStatus ticketId])
                 | Some showtime \<Rightarrow>
                     let db2 = incrementSold (s_id showtime) (- 1) db1
                     in (case find (\<lambda>t. t_id t = ticketId) (tickets db2) of
                           None \<Rightarrow>
                             (Inl (TypeError ''Cannot read properties of null''), db2,
                              [ReadTicket ticketId, CheckStatus, UpdateTicketStatus ticketId,
                               DecrementSold (s_id showtime), ReadTicket ticketId])
                         | Some updated \<Rightarrow>
                             (Inr updated, db2,
                              [ReadTicket ticketId, CheckStatus, UpdateTicketStatus ticketId,
                               DecrementSold (s_id showtime), ReadTicket ticketId]))))"

definition findByShowtimeAndSeat :: "Database \<Rightarrow> uuid \<Rightarrow> string \<Rightarrow> Ticket option" where
  "findByShowtimeAndSeat db showtimeId seatNumber =
     find (\<lambda>t. showtime_id t = showtimeId \<and> seat_number t = seatNumber \<and> status t = PURCHASED)
          (tickets db)"

text \<open>The rows are returned newest first (\<open>created_at DESC\<close>).\<close>

definition findByCustomerEmail_repo :: "Database \<Rightarrow> string \<Rightarrow> Ticket list" where
  "findByCustomerEmail_repo db email = rev (filter (\<lambda>t. customer_email t = email) (tickets db))"

section \<open>The tickets service\<close>

text \<open>
  \<open>TicketsService.purchaseTicket\<close>; \<open>now\<close> is the value of \<open>new Date()\<close> at
  the start-time check, \<open>prepareTicketData\<close> its clean \<open>ticketData\<close>.
\<close>

definition prepareTicketData :: "PurchaseTicketDto \<Rightarrow> PurchaseTicketDto" where
  "prepareTicketData purchaseTicketDto =
     \<lparr>dto_customer_name = trim (dto_customer_name purchaseTicketDto),
      dto_customer_email = trim (toLowerCase (dto_customer_email purchaseTicketDto)),
      dto_seat_number = toUpperCase (trim (dto_seat_number purchaseTicketDto))\<rparr>"

definition purchaseTicket ::
  "uuid \<Rightarrow> date \<Rightarrow> uuid \<Rightarrow> PurchaseTicketDto \<Rightarrow> Database \<Rightarrow> Ticket outcome" where
  "purchaseTicket newId now showtimeId purchaseTicketDto db =
     (case findShowtime db showtimeId of
        None \<Rightarrow>
          (Inl (NotFoundException (''Showtime with ID '' @ showtimeId @ '' not found'')), db,
           [FindShowtimeWithRelations showtimeId])
      | Some showtime \<Rightarrow>
          if start_time showtime \<le> now then
            (Inl (BadRequestException ''Cannot purchase tickets for past or ongoing showtimes''),
             db, [FindShowtimeWithRelations showtimeId, CheckStartTime])
          else if \<not> isValidEmail (dto_customer_email purchaseTicketDto) then
            (Inl (BadRequestException ''Invalid email format''), db,
             [FindShowtimeWithRelations showtimeId, CheckStartTime])
          else if \<not> isValidSeatNumber (dto_seat_number purchaseTicketDto) then
            (Inl (BadRequestException
                   ''Invalid seat number format. Use format like: A-1, B-15, etc.''), db,
             [FindShowtimeWithRelations showtimeId, CheckStartTime])
          else
            (case purchaseTicketWithTransaction newId showtimeId
                    (prepareTicketData purchaseTicketDto) db of
               (r, db', tr) \<Rightarrow>
                 (map_sum (\<lambda>e. e) fst r, db',
                  [FindShowtimeWithRelations showtimeId, CheckStartTime] @ tr)))"

text \<open>
  \<open>TicketsService.cancelTicket\<close>: whatever the repository throws is rethrown as a
  \<open>BadRequestException\<close> with the same message.
\<close>

definition cancelTicket :: "date \<Rightarrow> uuid \<Rightarrow> Database \<Rightarrow> Ticket outcome" where
  "cancelTicket now ticketId db =
     (case find (\<lambda>t. t_id t = ticketId) (tickets db) of
        None \<Rightarrow>
          (Inl (NotFoundException (''Ticket with ID '' @ ticketId @ '' not found'')), db,
           [FindTicketWithShowtimeDetails ticketId])
      | Some ticket \<Rightarrow>
         (case findShowtime db (showtime_id ticket) of
            None \<Rightarrow>
              (Inl (TypeError ''Cannot read properties of null''), db,
               [FindTicketWithShowtimeDetails ticketId])
          | Some showtime \<Rightarrow>
              if start_time showtime \<le> now then
                (Inl (BadRequestException ''Cannot cancel ticket for past or ongoing showtimes''),
                 db, [FindTicketWithShowtimeDetails ticketId, CheckStartTime])
              else if status ticket \<noteq> PURCHASED then
                (Inl (BadRequestException ''Only purchased tickets can be cancelled''), db,
                 [FindTicketWithShowtimeDetails ticketId, CheckStartTime, CheckStatus])
              else
                (case cancelTicketWithTransaction ticketId db of
                   (r, db', tr) \<Rightarrow>
                     (map_sum (\<lambda>e. BadRequestException (message e)) (\<lambda>t. t) r, db',
                      [FindTicketWithShowtimeDetails ticketId, CheckStartTime, CheckStatus] @ tr))))"

text \<open>\<open>TicketsService.findByCustomerEmail\<close>, a read of the store.\<close>

definition findByCustomerEmail :: "Database \<Rightarrow> string \<Rightarrow> exn + Ticket list" where
  "findByCustomerEmail db email =
     (if \<not> isValidEmail email then Inl (BadRequestException ''Invalid email format'')
      else Inr (findByCustomerEmail_repo db (trim (toLowerCase email))))"

text \<open>
  \<open>TicketsService.update\<close>. An optional property of the DTO is an \<open>option\<close>;
  \<open>truthy\<close> is JavaScript's test of an optional string in a condition.
  (\<open>showtime_id\<close> of the DTO names no column of the entity and is left out.)
\<close>

record UpdateTicketDto =
  u_customer_name :: "string option"
  u_customer_email :: "string option"
  u_seat_number :: "string option"
  u_status :: "TicketStatus option"

definition truthy :: "string option \<Rightarrow> bool" where
  "truthy x = (case x of None \<Rightarrow> False | Some s \<Rightarrow> s \<noteq> [])"

definition assign :: "'a option \<Rightarrow> 'a \<Rightarrow> 'a" where
  "assign x old = (case x of None \<Rightarrow> old | Some v \<Rightarrow> v)"

text \<open>\<open>TicketsRepository.update\<close>: the columns given are written, the row is read back.\<close>

definition update_repo :: "uuid \<Rightarrow> UpdateTicketDto \<Rightarrow> Database \<Rightarrow> (exn + Ticket) \<times> Database" where
  "update_repo ticketId ticketData db =
     (let db1 = db\<lparr>tickets := map (\<lambda>t. if t_id t = ticketId
                         then t\<lparr>customer_name := assign (u_customer_name ticketData) (customer_name t),
                                customer_email := assign (u_customer_email ticketData) (customer_email t),
                                seat_number := assign (u_seat_number ticketData) (seat_number t),
                                status := assign (u_status ticketData) (status t)\<rparr>
                         else t) (tickets db)\<rparr>
      in case find (\<lambda>t. t_id t = ticketId) (tickets db1) of
           None \<Rightarrow> (Inl (Error (''Ticket with id '' @ ticketId @ '' not found'')), db1)
         | Some ticket \<Rightarrow> (Inr ticket, db1))"

definition update :: "date \<Rightarrow> uuid \<Rightarrow> UpdateTicketDto \<Rightarrow> Database \<Rightarrow> (exn + Ticket) \<times> Database" where
  "update now ticketId updateTicketDto db =
     (case find (\<lambda>t. t_id t = ticketId) (tickets db) of
        None \<Rightarrow> (Inl (NotFoundException (''Ticket with ID '' @ ticketId @ '' not found'')), db)
      | Some existingTicket \<Rightarrow>
         (case findShowtime db (showtime_id existingTicket) of
            None \<Rightarrow> (Inl (TypeError ''Cannot read properties of null''), db)
          | Some showtime \<Rightarrow>
              if start_time showtime \<le> now then
                (Inl (BadRequestException ''Cannot update ticket for past or ongoing showtimes''), db)
              else
                let changingSeat = (truthy (u_seat_number updateTicketDto)
                      \<and> u_seat_number updateTicketDto \<noteq> Some (seat_number existingTicket));
                    seat = assign (u_seat_number updateTicketDto) []
                in if changingSeat \<and> findByShowtimeAndSeat db (s_id showtime) seat \<noteq> None then
                     (Inl (BadRequestException (''Seat '' @ seat @ '' is already occupied'')), db)
                   else if changingSeat \<and> \<not> isValidSeatNumber seat then
                     (Inl (BadRequestException
                            ''Invalid seat number format. Use format like: A-1, B-15, etc.''), db)
                   else if truthy (u_customer_email updateTicketDto)
                           \<and> \<not> isValidEmail (assign (u_customer_email updateTicketDto) []) then
                     (Inl (BadRequestException ''Invalid email format''), db)
                   else
                     update_repo ticketId
                       (updateTicketDto
                          \<lparr>u_customer_email :=
                             (if truthy (u_customer_email updateTicketDto)
                              then map_option (\<lambda>e. trim (toLowerCase e)) (u_customer_email updateTicketDto)
                              else u_customer_email updateTicketDto),
                           u_customer_name :=
                             (if truthy (u_customer_name updateTicketDto)
                              then map_option trim (u_customer_name updateTicketDto)
                              else u_customer_name updateTicketDto),
                           u_seat_number :=
                             (if truthy (u_seat_number updateTicketDto)
                              then map_option (\<lambda>s. toUpperCase (trim s)) (u_seat_number updateTicketDto)
                              else u_seat_number updateTicketDto)\<rparr>)
                       db))"

text \<open>\<open>countTicketsByShowtime\<close> and the seats of \<open>getOccupiedSeats\<close> (in table order).\<close>

definition countTicketsByShowtime :: "Database \<Rightarrow> uuid \<Rightarrow> nat" where
  "countTicketsByShowtime db showtimeId =
     length (filter (\<lambda>t. showtime_id t = showtimeId \<and> status t = PURCHASED) (tickets db))"

definition getOccupiedSeats :: "Database \<Rightarrow> uuid \<Rightarrow> string list" where
  "getOccupiedSeats db showtimeId =
     map seat_number (filter (\<lambda>t. showtime_id t = showtimeId \<and> status t = PURCHASED) (tickets db))"

section \<open>Showtimes\<close>

text \<open>
  \<open>findConflictingShowtime\<close> of \<open>showtime.repository.ts\<close>: the query joins the
  theater, keeps the rows of the given theater that overlap the interval and, when
  \<open>excludeId\<close> is given, are not that showtime; \<open>getOne\<close> takes the first.
\<close>

definition findConflictingShowtime ::
  "Database \<Rightarrow> uuid \<Rightarrow> date \<Rightarrow> date \<Rightarrow> uuid option \<Rightarrow> Showtime option" where
  "findConflictingShowtime db theaterId startTime endTime excludeId =
     find (\<lambda>s. list_ex (\<lambda>th. th_id th = theater_id s \<and> th_id th = theaterId) (theaters db)
              \<and> start_time s < endTime \<and> end_time s > startTime
              \<and> (if truthy excludeId then Some (s_id s) \<noteq> excludeId else True))
          (showtimes db)"

definition findMovie :: "Database \<Rightarrow> uuid \<Rightarrow> Movie option" where
  "findMovie db movieId = find (\<lambda>m. m_id m = movieId) (movies db)"

text \<open>\<open>addMinutes\<close> of date-fns.\<close>

definition addMinutes :: "date \<Rightarrow> int \<Rightarrow> date" where
  "addMinutes d amount = d + amount * 60000"

record UpdateShowtimeDto =
  u_movie_id :: "uuid option"
  u_theater_id :: "uuid option"
  u_start_time :: "date option"
  u_price :: "int option"

record ShowtimeUpdateData =
  d_movie_id :: "uuid option"
  d_theater_id :: "uuid option"
  d_start_time :: "date option"
  d_end_time :: "date option"
  d_price :: "int option"

text \<open>
  \<open>ShowtimesRepository.update\<close>: the values given are written to the columns of the
  row, which is then read back.
\<close>

definition showtimes_update_repo ::
  "uuid \<Rightarrow> ShowtimeUpdateData \<Rightarrow> Database \<Rightarrow> (exn + Showtime) \<times> Database" where
  "showtimes_update_repo showtimeId showtimeData db =
     (let db1 = db\<lparr>showtimes := map (\<lambda>s. if s_id s = showtimeId
                         then s\<lparr>movie_id := assign (d_movie_id showtimeData) (movie_id s),
                                theater_id := assign (d_theater_id showtimeData) (theater_id s),
                                start_time := assign (d_start_time showtimeData) (start_time s),
                                end_time := assign (d_end_time showtimeData) (end_time s),
                                s_price := assign (d_price showtimeData) (s_price s)\<rparr>
                         else s) (showtimes db)\<rparr>
      in case findShowtime db1 showtimeId of
           None \<Rightarrow> (Inl (Error (''Showtime with id '' @ showtimeId @ '' not found'')), db1)
         | Some updatedShowtime \<Rightarrow> (Inr updatedShowtime, db1))"

text \<open>
  The part of \<open>ShowtimesService.update\<close> inside
  \<open>if (updateShowtimeDto.movie_id || updateShowtimeDto.start_time)\<close>: it returns the
  update data with the recomputed interval, or throws. The ids of the loaded relations
  \<open>existingShowtime.movie\<close> and \<open>existingShowtime.theater\<close> are the join columns.
\<close>

definition recalculate ::
  "uuid \<Rightarrow> UpdateShowtimeDto \<Rightarrow> Showtime \<Rightarrow> ShowtimeUpdateData \<Rightarrow> Database
     \<Rightarrow> exn + ShowtimeUpdateData" where
  "recalculate showtimeId updateShowtimeDto existingShowtime updateData db =
     (let movieId = (if truthy (u_movie_id updateShowtimeDto)
                     then assign (u_movie_id updateShowtimeDto) []
                     else movie_id existingShowtime)
      in case findMovie db movieId of
           None \<Rightarrow> Inl (NotFoundException (''Movie with ID '' @ movieId @ '' not found''))
         | Some movie \<Rightarrow>
             let startTime = assign (u_start_time updateShowtimeDto) (start_time existingShowtime);
                 endTime = addMinutes startTime (duration movie);
                 theaterId = (if truthy (u_theater_id updateShowtimeDto)
                              then assign (u_theater_id updateShowtimeDto) []
                              else theater_id existingShowtime)
             in case findConflictingShowtime db theaterId startTime endTime (Some showtimeId) of
                  Some conflictingShowtime \<Rightarrow>
                    Inl (ConflictException
                      ''Scheduling conflict: theater already has a showtime during this period'')
                | None \<Rightarrow>
                    Inr (updateData\<lparr>d_start_time := Some startTime, d_end_time := Some endTime\<rparr>))"

text \<open>
  \<open>ShowtimesService.update\<close>; \<open>now1\<close> and \<open>now2\<close> are the values of its two
  \<open>new Date()\<close>.
\<close>

definition update_showtime ::
  "date \<Rightarrow> date \<Rightarrow> uuid \<Rightarrow> UpdateShowtimeDto \<Rightarrow> Database \<Rightarrow> (exn + Showtime) \<times> Database" where
  "update_showtime now1 now2 showtimeId updateShowtimeDto db =
     (case findShowtime db showtimeId of
        None \<Rightarrow> (Inl (NotFoundException (''Showtime with ID '' @ showtimeId @ '' not found'')), db)
      | Some existingShowtime \<Rightarrow>
          if start_time existingShowtime \<le> now1 then
            (Inl (BadRequestException ''Cannot update showtime that has already started''), db)
          else if (case u_start_time updateShowtimeDto of
                     None \<Rightarrow> False | Some newStartTime \<Rightarrow> newStartTime < now2) then
            (Inl (BadRequestException ''Cannot schedule showtime in the past''), db)
          else
            let updateData0 = \<lparr>d_movie_id = u_movie_id updateShowtimeDto,
                               d_theater_id = u_theater_id updateShowtimeDto,
                               d_start_time = u_start_time updateShowtimeDto,
                               d_end_time = None,
                               d_price = u_price updateShowtimeDto\<rparr>
            in case (if truthy (u_movie_id updateShowtimeDto) \<or> u_start_time updateShowtimeDto \<noteq> None
                     then recalculate showtimeId updateShowtimeDto existingShowtime updateData0 db
                     else Inr updateData0) of
                 Inl e \<Rightarrow> (Inl e, db)
               | Inr updateData \<Rightarrow>
                   if truthy (u_theater_id updateShowtimeDto) then
                     (case findTheater db (assign (u_theater_id updateShowtimeDto) []) of
                        None \<Rightarrow>
                          (Inl (NotFoundException
                                 (''Theater with ID '' @ assign (u_theater_id updateShowtimeDto) []
                                   @ '' not found'')), db)
                      | Some theater \<Rightarrow>
                          if \<not> is_active theater then
                            (Inl (BadRequestException ''Theater is not active''), db)
                          else showtimes_update_repo showtimeId updateData db)
                   else showtimes_update_repo showtimeId updateData db)"

section \<open>Vocabulary of the properties\<close>

definition result_of :: "'a outcome \<Rightarrow> exn + 'a" where
  "result_of out = fst out"

definition store_of :: "'a outcome \<Rightarrow> Database" where
  "store_of out = fst (snd out)"

definition trace_of :: "'a outcome \<Rightarrow> event list" where
  "trace_of out = snd (snd out)"

text \<open>What happened before the lock on the showtime row was requested.\<close>

definition before_lock :: "uuid \<Rightarrow> event list \<Rightarrow> event list" where
  "before_lock showtimeId tr = takeWhile (\<lambda>e. e \<noteq> LockShowtime showtimeId) tr"

text \<open>The counter of every showtime is the number of its purchased tickets.\<close>

definition counter_consistent :: "Database \<Rightarrow> bool" where
  "counter_consistent db =
     list_all (\<lambda>s. sold_tickets s = int (countTicketsByShowtime db (s_id s))) (showtimes db)"

text \<open>The specification's overlap of two half-open intervals.\<close>

definition spec_overlap :: "date \<Rightarrow> date \<Rightarrow> date \<Rightarrow> date \<Rightarrow> bool" where
  "spec_overlap s1 e1 s2 e2 = (s1 < e2 \<and> s2 < e1)"

text \<open>The specification's seat format: one or two letters, a hyphen, one to three digits.\<close>

definition spec_seat_pattern :: "string \<Rightarrow> bool" where
  "spec_seat_pattern s =
     (\<exists>ls ds. s = ls @ ''-'' @ ds \<and> length ls \<in> {1, 2} \<and> length ds \<in> {1, 2, 3}
              \<and> list_all isAZ ls \<and> list_all isDigit ds)"

subsection \<open>A small store\<close>

text \<open>
  One theater of two seats, one showtime of a two-hour movie starting at instant 5000
  with one seat sold, and its ticket.
\<close>

definition ex_theater :: Theater where
  "ex_theater = \<lparr>th_id = ''th1'', capacity = 2, is_active = True\<rparr>"

definition ex_showtime :: Showtime where
  "ex_showtime = \<lparr>s_id = ''s1'', start_time = 5000, end_time = 7205000, s_price = 1550,
                  sold_tickets = 1, movie_id = ''m1'', theater_id = ''th1''\<rparr>"

definition ex_ticket :: Ticket where
  "ex_ticket = \<lparr>t_id = ''t1'', customer_name = ''Ann'', customer_email = ''ann@example.com'',
                seat_number = ''A-1'', status = PURCHASED, t_price = 1550, showtime_id = ''s1''\<rparr>"

definition ex_db :: Database where
  "ex_db = \<lparr>movies = [\<lparr>m_id = ''m1'', duration = 120\<rparr>], theaters = [ex_theater],
            showtimes = [ex_showtime], tickets = [ex_ticket]\<rparr>"

definition ex_dto :: PurchaseTicketDto where
  "ex_dto = \<lparr>dto_customer_name = ''Bob'', dto_customer_email = ''Bob@Example.com'',
             dto_seat_number = ''b-2''\<rparr>"

text \<open>The same store after the ticket was cancelled.\<close>

definition ex_db_cancelled :: Database where
  "ex_db_cancelled = ex_db\<lparr>showtimes := [ex_showtime\<lparr>sold_tickets := 0\<rparr>],
                           tickets := [ex_ticket\<lparr>status := CANCELLED\<rparr>]\<rparr>"

text \<open>The store with both seats of the showtime sold.\<close>

definition ex_ticket2 :: Ticket where
  "ex_ticket2 = \<lparr>t_id = ''t2'', customer_name = ''Bob'', customer_email = ''bob@example.com'',
                 seat_number = ''B-2'', status = PURCHASED, t_price = 1550, showtime_id = ''s1''\<rparr>"

definition ex_db_full :: Database where
  "ex_db_full = ex_db\<lparr>showtimes := [ex_showtime\<lparr>sold_tickets := 2\<rparr>],
                      tickets := [ex_ticket, ex_ticket2]\<rparr>"

text \<open>
  A store with a second theater, whose showtime \<open>s2\<close> overlaps the interval of
  \<open>s1\<close> in the first theater.
\<close>

definition ex_theater2 :: Theater where
  "ex_theater2 = \<lparr>th_id = ''th2'', capacity = 50, is_active = True\<rparr>"

definition ex_showtime2 :: Showtime where
  "ex_showtime2 = \<lparr>s_id = ''s2'', start_time = 6000, end_time = 7206000, s_price = 1200,
                   sold_tickets = 0, movie_id = ''m1'', theater_id = ''th2''\<rparr>"

definition ex_db_theaters :: Database where
  "ex_db_theaters = ex_db\<lparr>theaters := [ex_theater, ex_theater2],
                          showtimes := [ex_showtime, ex_showtime2]\<rparr>"

section \<open>Properties\<close>

lemmas ex_defs = ex_db_def ex_theater_def ex_showtime_def ex_ticket_def ex_dto_def
lemmas str_defs = isValidEmail_def emailRegex_def Lit_def
     notSpaceAt_def isSpace_def isValidSeatNumber_def seatRegex_def toUpperCase_def upperChar_def
     lower_letters_def upper_letters_def isAZ_def isDigit_def digits_def trim_def toLowerCase_def lowerChar_def

lemma find_map_sold:
  "find (\<lambda>s. s_id s = x) (map (\<lambda>s. if s_id s = sid then s\<lparr>sold_tickets := sold_tickets s + n\<rparr> else s) xs)
   = map_option (\<lambda>s. if s_id s = sid then s\<lparr>sold_tickets := sold_tickets s + n\<rparr> else s)
       (find (\<lambda>s. s_id s = x) xs)"
  by (induction xs) auto

lemma findShowtime_incrementSold:
  "findShowtime (incrementSold sid n db) x =
     map_option (\<lambda>s. if s_id s = sid then s\<lparr>sold_tickets := sold_tickets s + n\<rparr> else s)
       (findShowtime db x)"
  by (simp add: findShowtime_def incrementSold_def find_map_sold)

lemma findShowtime_tickets_update [simp]:
  "findShowtime (db\<lparr>tickets := ts\<rparr>) x = findShowtime db x"
  by (simp add: findShowtime_def)

lemma findTheater_incrementSold [simp]:
  "findTheater (incrementSold sid n db) x = findTheater db x"
  by (simp add: findTheater_def incrementSold_def)

lemma findTheater_tickets_update [simp]:
  "findTheater (db\<lparr>tickets := ts\<rparr>) x = findTheater db x"
  by (simp add: findTheater_def)

lemma tickets_incrementSold [simp]: "tickets (incrementSold sid n db) = tickets db"
  by (simp add: incrementSold_def)

lemma findShowtime_s_id: "findShowtime db x = Some sh \<Longrightarrow> s_id sh = x"
  by (auto simp: findShowtime_def find_Some_iff)

lemma purchaseTx_not_found:
  "findShowtime db sid = None \<Longrightarrow>
   purchaseTicketWithTransaction newId sid td db =
     (Inl (Error (''Showtime with ID '' @ sid @ '' not found'')), db,
      [Begin, LockShowtime sid, Rollback])"
  by (simp add: purchaseTicketWithTransaction_def transaction_def)

lemma purchaseTx_no_theater:
  "findShowtime db sid = Some sh \<Longrightarrow> findTheater db (theater_id sh) = None \<Longrightarrow>
   purchaseTicketWithTransaction newId sid td db =
     (Inl (TypeError ''Cannot read properties of null''), db,
      [Begin, LockShowtime sid, ReadShowtime sid, Rollback])"
  by (simp add: purchaseTicketWithTransaction_def transaction_def)

lemma purchaseTx_sold_out:
  "findShowtime db sid = Some sh \<Longrightarrow> findTheater db (theater_id sh) = Some th \<Longrightarrow>
   capacity th \<le> sold_tickets sh \<Longrightarrow>
   purchaseTicketWithTransaction newId sid td db =
     (Inl (BadRequestException ''Showtime is sold out - no available seats''), db,
      [Begin, LockShowtime sid, ReadShowtime sid, CheckCapacity, Rollback])"
  by (simp add: purchaseTicketWithTransaction_def transaction_def)

lemma purchaseTx_seat_taken:
  "findShowtime db sid = Some sh \<Longrightarrow> findTheater db (theater_id sh) = Some th \<Longrightarrow>
   sold_tickets sh < capacity th \<Longrightarrow>
   findByShowtimeAndSeat db sid (dto_seat_number td) = Some t \<Longrightarrow>
   purchaseTicketWithTransaction newId sid td db =
     (Inl (BadRequestException (''Seat '' @ dto_seat_number td @ '' is already occupied'')), db,
      [Begin, LockShowtime sid, ReadShowtime sid, CheckCapacity,
       ReadSeat sid (dto_seat_number td), CheckSeat, Rollback])"
  by (simp add: purchaseTicketWithTransaction_def transaction_def findByShowtimeAndSeat_def)

lemma purchaseTx_ok:
  "findShowtime db sid = Some sh \<Longrightarrow> findTheater db (theater_id sh) = Some th \<Longrightarrow>
   sold_tickets sh < capacity th \<Longrightarrow>
   findByShowtimeAndSeat db sid (dto_seat_number td) = None \<Longrightarrow>
   purchaseTicketWithTransaction newId sid td db =
     (Inr (newTicket newId sid td sh, sh),
      incrementSold sid 1 (db\<lparr>tickets := tickets db @ [newTicket newId sid td sh]\<rparr>),
      [Begin, LockShowtime sid, ReadShowtime sid, CheckCapacity,
       ReadSeat sid (dto_seat_number td), CheckSeat,
       InsertTicket newId, IncrementSold sid, ReadTicket newId, Commit])"
  by (simp add: purchaseTicketWithTransaction_def transaction_def findByShowtimeAndSeat_def Let_def)

text \<open>Every run of the purchase transaction is one of the five above.\<close>

lemma purchaseTx_cases:
  obtains
    (not_found) "findShowtime db sid = None"
  | (no_theater) sh where "findShowtime db sid = Some sh" "findTheater db (theater_id sh) = None"
  | (sold_out) sh th where "findShowtime db sid = Some sh" "findTheater db (theater_id sh) = Some th"
      "capacity th \<le> sold_tickets sh"
  | (seat_taken) sh th t where "findShowtime db sid = Some sh" "findTheater db (theater_id sh) = Some th"
      "sold_tickets sh < capacity th" "findByShowtimeAndSeat db sid seat = Some t"
  | (ok) sh th where "findShowtime db sid = Some sh" "findTheater db (theater_id sh) = Some th"
      "sold_tickets sh < capacity th" "findByShowtimeAndSeat db sid seat = None"
proof (cases "findShowtime db sid")
  case None then show ?thesis using not_found by simp
next
  case (Some sh)
  show ?thesis
  proof (cases "findTheater db (theater_id sh)")
    case None then show ?thesis using Some no_theater by simp
  next
    case th: (Some th)
    show ?thesis
    proof (cases "capacity th \<le> sold_tickets sh")
      case True then show ?thesis using Some th sold_out by simp
    next
      case False
      then have lt: "sold_tickets sh < capacity th" by simp
      show ?thesis
        by (cases "findByShowtimeAndSeat db sid seat") (use Some th lt seat_taken ok in auto)
    qed
  qed
qed

lemma purchaseTx_bound:
  assumes "findShowtime db x = Some sh" and "findTheater db (theater_id sh) = Some th"
    and "sold_tickets sh \<le> capacity th"
  shows "\<exists>sh'. findShowtime (store_of (purchaseTicketWithTransaction newId sid td db)) x = Some sh'
           \<and> theater_id sh' = theater_id sh
           \<and> findTheater (store_of (purchaseTicketWithTransaction newId sid td db)) (theater_id sh') = Some th
           \<and> sold_tickets sh' \<le> capacity th"
proof (cases rule: purchaseTx_cases [where db=db and sid=sid and seat="dto_seat_number td"])
  case not_found
  then show ?thesis using assms by (simp add: purchaseTx_not_found store_of_def)
next
  case (no_theater sh0)
  then show ?thesis using assms by (simp add: purchaseTx_no_theater store_of_def)
next
  case (sold_out sh0 th0)
  then show ?thesis using assms by (simp add: purchaseTx_sold_out store_of_def)
next
  case (seat_taken sh0 th0 t)
  then show ?thesis using assms by (simp add: purchaseTx_seat_taken store_of_def)
next
  case (ok sh0 th0)
  show ?thesis
  proof (cases "x = sid")
    case True
    with ok assms have "sh0 = sh" "th0 = th" by simp_all
    with ok assms True findShowtime_s_id [OF assms(1)] show ?thesis
      by (simp add: purchaseTx_ok [OF ok] store_of_def findShowtime_incrementSold)
  next
    case False
    with assms findShowtime_s_id [OF assms(1)] show ?thesis
      by (simp add: purchaseTx_ok [OF ok] store_of_def findShowtime_incrementSold)
  qed
qed

lemma purchaseTicket_run:
  assumes "findShowtime db sid = Some sh" and "now < start_time sh"
    and "isValidEmail (dto_customer_email dto)" and "isValidSeatNumber (dto_seat_number dto)"
  shows "purchaseTicket newId now sid dto db =
     (map_sum (\<lambda>e. e) fst (result_of (purchaseTicketWithTransaction newId sid (prepareTicketData dto) db)),
      store_of (purchaseTicketWithTransaction newId sid (prepareTicketData dto) db),
      [FindShowtimeWithRelations sid, CheckStartTime]
        @ trace_of (purchaseTicketWithTransaction newId sid (prepareTicketData dto) db))"
  using assms
  by (simp add: purchaseTicket_def result_of_def store_of_def trace_of_def split: prod.splits)

lemma purchaseTicket_store:
  "store_of (purchaseTicket newId now sid dto db) = db \<or>
   store_of (purchaseTicket newId now sid dto db)
     = store_of (purchaseTicketWithTransaction newId sid (prepareTicketData dto) db)"
  by (auto simp: purchaseTicket_def store_of_def split: option.splits prod.splits)

lemma purchaseTicket_bound:
  assumes "findShowtime db x = Some sh" and "findTheater db (theater_id sh) = Some th"
    and "sold_tickets sh \<le> capacity th"
  shows "\<exists>sh'. findShowtime (store_of (purchaseTicket newId now sid dto db)) x = Some sh'
           \<and> theater_id sh' = theater_id sh
           \<and> findTheater (store_of (purchaseTicket newId now sid dto db)) (theater_id sh') = Some th
           \<and> sold_tickets sh' \<le> capacity th"
  using purchaseTicket_store [of newId now sid dto db]
proof
  assume "store_of (purchaseTicket newId now sid dto db) = db"
  with assms show ?thesis by simp
next
  assume "store_of (purchaseTicket newId now sid dto db)
     = store_of (purchaseTicketWithTransaction newId sid (prepareTicketData dto) db)"
  with purchaseTx_bound [OF assms] show ?thesis by simp
qed

text \<open>
  C1 (as amended). Take any showtime \<open>x\<close> whose \<open>sold_tickets\<close> is at most the capacity
  of its theater. After the purchase transaction, and after the purchase operation of the
  service, on any showtime \<open>sid\<close>, \<open>sold_tickets\<close> of \<open>x\<close> is still at most that
  capacity. When \<open>x\<close> is the showtime of the purchase: if \<open>sold_tickets \<ge> capacity\<close> at
  the check inside the transaction, the transaction fails with the sold-out error and
  writes nothing; otherwise, if the seat is held by a purchased ticket of the showtime,
  it fails with the seat-taken error and writes nothing; otherwise it inserts exactly one
  ticket, of status \<open>PURCHASED\<close>, and increments \<open>sold_tickets\<close> by exactly 1.
\<close>

theorem purchase_keeps_capacity_bound:
  assumes "findShowtime db x = Some sh" and "findTheater db (theater_id sh) = Some th"
    and "sold_tickets sh \<le> capacity th"
  shows "(\<exists>sh'. findShowtime (store_of (purchaseTicketWithTransaction newId sid td db)) x = Some sh'
            \<and> theater_id sh' = theater_id sh
            \<and> findTheater (store_of (purchaseTicketWithTransaction newId sid td db)) (theater_id sh') = Some th
            \<and> sold_tickets sh' \<le> capacity th)
       \<and> (\<exists>sh'. findShowtime (store_of (purchaseTicket newId now sid dto db)) x = Some sh'
            \<and> theater_id sh' = theater_id sh
            \<and> findTheater (store_of (purchaseTicket newId now sid dto db)) (theater_id sh') = Some th
            \<and> sold_tickets sh' \<le> capacity th)
       \<and> (x = sid \<and> capacity th \<le> sold_tickets sh \<longrightarrow>
            purchaseTicketWithTransaction newId sid td db =
              (Inl (BadRequestException ''Showtime is sold out - no available seats''), db,
               [Begin, LockShowtime sid, ReadShowtime sid, CheckCapacity, Rollback]))
       \<and> (x = sid \<and> sold_tickets sh < capacity th
            \<and> findByShowtimeAndSeat db sid (dto_seat_number td) \<noteq> None \<longrightarrow>
            purchaseTicketWithTransaction newId sid td db =
              (Inl (BadRequestException (''Seat '' @ dto_seat_number td @ '' is already occupied'')), db,
               [Begin, LockShowtime sid, ReadShowtime sid, CheckCapacity,
                ReadSeat sid (dto_seat_number td), CheckSeat, Rollback]))
       \<and> (x = sid \<and> sold_tickets sh < capacity th
            \<and> findByShowtimeAndSeat db sid (dto_seat_number td) = None \<longrightarrow>
            result_of (purchaseTicketWithTransaction newId sid td db) = Inr (newTicket newId sid td sh, sh)
            \<and> status (newTicket newId sid td sh) = PURCHASED
            \<and> tickets (store_of (purchaseTicketWithTransaction newId sid td db))
                = tickets db @ [newTicket newId sid td sh]
            \<and> findShowtime (store_of (purchaseTicketWithTransaction newId sid td db)) sid
                = Some (sh\<lparr>sold_tickets := sold_tickets sh + 1\<rparr>))"
proof (intro conjI impI)
  show "\<exists>sh'. findShowtime (store_of (purchaseTicketWithTransaction newId sid td db)) x = Some sh'
            \<and> theater_id sh' = theater_id sh
            \<and> findTheater (store_of (purchaseTicketWithTransaction newId sid td db)) (theater_id sh') = Some th
            \<and> sold_tickets sh' \<le> capacity th"
    by (rule purchaseTx_bound [OF assms])
  show "\<exists>sh'. findShowtime (store_of (purchaseTicket newId now sid dto db)) x = Some sh'
            \<and> theater_id sh' = theater_id sh
            \<and> findTheater (store_of (purchaseTicket newId now sid dto db)) (theater_id sh') = Some th
            \<and> sold_tickets sh' \<le> capacity th"
    by (rule purchaseTicket_bound [OF assms])
next
  assume "x = sid \<and> capacity th \<le> sold_tickets sh"
  with assms show "purchaseTicketWithTransaction newId sid td db =
              (Inl (BadRequestException ''Showtime is sold out - no available seats''), db,
               [Begin, LockShowtime sid, ReadShowtime sid, CheckCapacity, Rollback])"
    by (simp add: purchaseTx_sold_out)
next
  assume "x = sid \<and> sold_tickets sh < capacity th
            \<and> findByShowtimeAndSeat db sid (dto_seat_number td) \<noteq> None"
  with assms show "purchaseTicketWithTransaction newId sid td db =
              (Inl (BadRequestException (''Seat '' @ dto_seat_number td @ '' is already occupied'')), db,
               [Begin, LockShowtime sid, ReadShowtime sid, CheckCapacity,
                ReadSeat sid (dto_seat_number td), CheckSeat, Rollback])"
    by (auto simp: purchaseTx_seat_taken)
next
  assume a: "x = sid \<and> sold_tickets sh < capacity th
            \<and> findByShowtimeAndSeat db sid (dto_seat_number td) = None"
  with assms have ok: "purchaseTicketWithTransaction newId sid td db =
     (Inr (newTicket newId sid td sh, sh),
      incrementSold sid 1 (db\<lparr>tickets := tickets db @ [newTicket newId sid td sh]\<rparr>),
      [Begin, LockShowtime sid, ReadShowtime sid, CheckCapacity,
       ReadSeat sid (dto_seat_number td), CheckSeat,
       InsertTicket newId, IncrementSold sid, ReadTicket newId, Commit])"
    by (simp add: purchaseTx_ok)
  show "result_of (purchaseTicketWithTransaction newId sid td db) = Inr (newTicket newId sid td sh, sh)"
    by (simp add: ok result_of_def)
  show "status (newTicket newId sid td sh) = PURCHASED"
    by (simp add: newTicket_def)
  show "tickets (store_of (purchaseTicketWithTransaction newId sid td db))
                = tickets db @ [newTicket newId sid td sh]"
    by (simp add: ok store_of_def)
  show "findShowtime (store_of (purchaseTicketWithTransaction newId sid td db)) sid
                = Some (sh\<lparr>sold_tickets := sold_tickets sh + 1\<rparr>)"
    using a assms findShowtime_s_id [OF assms(1)]
    by (simp add: ok store_of_def findShowtime_incrementSold)
qed


theorem purchase_keeps_capacity_bound_witness:
  "findShowtime ex_db ''s1'' = Some ex_showtime
   \<and> findTheater ex_db (theater_id ex_showtime) = Some ex_theater
   \<and> sold_tickets ex_showtime \<le> capacity ex_theater
   \<and> (\<exists>sh'. findShowtime (store_of (purchaseTicket ''t2'' 1000 ''s1'' ex_dto ex_db)) ''s1'' = Some sh'
          \<and> sold_tickets sh' \<le> capacity ex_theater)
   \<and> findShowtime (store_of (purchaseTicketWithTransaction ''t2'' ''s1'' (prepareTicketData ex_dto) ex_db)) ''s1''
        = Some (ex_showtime\<lparr>sold_tickets := 2\<rparr>)"
proof -
  have h1: "findShowtime ex_db ''s1'' = Some ex_showtime"
    by (simp add: findShowtime_def ex_defs)
  have h2: "findTheater ex_db (theater_id ex_showtime) = Some ex_theater"
    by (simp add: findTheater_def ex_defs)
  have h3: "sold_tickets ex_showtime \<le> capacity ex_theater"
    by (simp add: ex_defs)
  have h4: "sold_tickets ex_showtime < capacity ex_theater"
    by (simp add: ex_defs)
  have h5: "findByShowtimeAndSeat ex_db ''s1'' (dto_seat_number (prepareTicketData ex_dto)) = None"
    by (simp add: findByShowtimeAndSeat_def prepareTicketData_def ex_defs str_defs)
  have h6: "sold_tickets ex_showtime + 1 = 2"
    by (simp add: ex_defs)
  show ?thesis
    using h1 h2 h3 h4 h5 h6
      purchase_keeps_capacity_bound [OF h1 h2 h3, of "''t2''" "''s1''" "prepareTicketData ex_dto" 1000 ex_dto]
    by auto
qed

theorem purchase_below_capacity_counterexample:
  "findShowtime ex_db ''s1'' = Some ex_showtime
   \<and> findTheater ex_db (theater_id ex_showtime) = Some ex_theater
   \<and> sold_tickets ex_showtime < capacity ex_theater
   \<and> purchaseTicketWithTransaction ''t2'' ''s1'' (ex_dto\<lparr>dto_seat_number := ''A-1''\<rparr>) ex_db
       = (Inl (BadRequestException ''Seat A-1 is already occupied''), ex_db,
          [Begin, LockShowtime ''s1'', ReadShowtime ''s1'', CheckCapacity,
           ReadSeat ''s1'' ''A-1'', CheckSeat, Rollback])"
  by (simp add: purchaseTicketWithTransaction_def transaction_def findShowtime_def
      findTheater_def ex_defs)

lemma find_map_cancelled:
  "find (\<lambda>t. t_id t = x) (map (\<lambda>t. if t_id t = tid then t\<lparr>status := CANCELLED\<rparr> else t) ts)
   = map_option (\<lambda>t. if t_id t = tid then t\<lparr>status := CANCELLED\<rparr> else t)
       (find (\<lambda>t. t_id t = x) ts)"
  by (induction ts) auto

lemma find_t_id: "find (\<lambda>t. t_id t = x) ts = Some t \<Longrightarrow> t_id t = x"
  by (auto simp: find_Some_iff)

lemma cancelTx_not_found:
  "find (\<lambda>t. t_id t = tid) (tickets db) = None \<Longrightarrow>
   cancelTicketWithTransaction tid db =
     (Inl (Error (''Ticket with ID '' @ tid @ '' not found'')), db,
      [Begin, ReadTicket tid, Rollback])"
  by (simp add: cancelTicketWithTransaction_def transaction_def)

lemma cancelTx_not_purchased:
  "find (\<lambda>t. t_id t = tid) (tickets db) = Some t \<Longrightarrow> status t \<noteq> PURCHASED \<Longrightarrow>
   cancelTicketWithTransaction tid db =
     (Inl (Error ''Only purchased tickets can be cancelled''), db,
      [Begin, ReadTicket tid, CheckStatus, Rollback])"
  by (simp add: cancelTicketWithTransaction_def transaction_def)

lemma cancelTx_no_showtime:
  "find (\<lambda>t. t_id t = tid) (tickets db) = Some t \<Longrightarrow> status t = PURCHASED \<Longrightarrow>
   findShowtime db (showtime_id t) = None \<Longrightarrow>
   cancelTicketWithTransaction tid db =
     (Inl (TypeError ''Cannot read properties of null''), db,
      [Begin, ReadTicket tid, CheckStatus, UpdateTicketStatus tid, Rollback])"
  by (simp add: cancelTicketWithTransaction_def transaction_def Let_def)

lemma cancelTx_ok:
  assumes "find (\<lambda>t. t_id t = tid) (tickets db) = Some t" and "status t = PURCHASED"
    and "findShowtime db (showtime_id t) = Some sh"
  shows "cancelTicketWithTransaction tid db =
     (Inr (t\<lparr>status := CANCELLED\<rparr>),
      incrementSold (showtime_id t) (- 1)
        (db\<lparr>tickets := map (\<lambda>t. if t_id t = tid then t\<lparr>status := CANCELLED\<rparr> else t) (tickets db)\<rparr>),
      [Begin, ReadTicket tid, CheckStatus, UpdateTicketStatus tid,
       DecrementSold (showtime_id t), ReadTicket tid, Commit])"
  using assms find_t_id [OF assms(1)] findShowtime_s_id [OF assms(3)]
  by (simp add: cancelTicketWithTransaction_def transaction_def Let_def find_map_cancelled)

lemma cancelTx_cases:
  obtains
    (not_found) "find (\<lambda>t. t_id t = tid) (tickets db) = None"
  | (not_purchased) t where "find (\<lambda>t. t_id t = tid) (tickets db) = Some t" "status t \<noteq> PURCHASED"
  | (no_showtime) t where "find (\<lambda>t. t_id t = tid) (tickets db) = Some t" "status t = PURCHASED"
      "findShowtime db (showtime_id t) = None"
  | (ok) t sh where "find (\<lambda>t. t_id t = tid) (tickets db) = Some t" "status t = PURCHASED"
      "findShowtime db (showtime_id t) = Some sh"
proof (cases "find (\<lambda>t. t_id t = tid) (tickets db)")
  case None then show ?thesis using not_found by simp
next
  case (Some t)
  show ?thesis
  proof (cases "status t = PURCHASED")
    case False then show ?thesis using Some not_purchased by simp
  next
    case True
    then show ?thesis
      by (cases "findShowtime db (showtime_id t)") (use Some no_showtime ok in auto)
  qed
qed

lemma cancelTx_no_lock: "LockShowtime x \<notin> set (trace_of (cancelTicketWithTransaction tid db))"
  by (cases rule: cancelTx_cases [where tid=tid and db=db])
     (simp_all add: cancelTx_not_found cancelTx_not_purchased cancelTx_no_showtime cancelTx_ok
        trace_of_def)

lemma cancelTicket_trace:
  "trace_of (cancelTicket now tid db) \<in>
     {[FindTicketWithShowtimeDetails tid],
      [FindTicketWithShowtimeDetails tid, CheckStartTime],
      [FindTicketWithShowtimeDetails tid, CheckStartTime, CheckStatus],
      [FindTicketWithShowtimeDetails tid, CheckStartTime, CheckStatus]
        @ trace_of (cancelTicketWithTransaction tid db)}"
  by (simp add: cancelTicket_def trace_of_def split: option.splits prod.splits)

lemma cancel_never_locks:
  "LockShowtime x \<notin> set (trace_of (cancelTicket now tid db))"
  using cancelTicket_trace [of now tid db] cancelTx_no_lock [of x tid db]
  by auto

lemma purchaseTx_before_lock:
  "before_lock sid (trace_of (purchaseTicketWithTransaction newId sid td db)) = [Begin]"
  by (cases rule: purchaseTx_cases [where db=db and sid=sid and seat="dto_seat_number td"])
     (simp_all add: purchaseTx_not_found purchaseTx_no_theater purchaseTx_sold_out
        purchaseTx_seat_taken purchaseTx_ok trace_of_def before_lock_def)

lemma purchaseTicket_trace:
  "trace_of (purchaseTicket newId now sid dto db) \<in>
     {[FindShowtimeWithRelations sid],
      [FindShowtimeWithRelations sid, CheckStartTime],
      [FindShowtimeWithRelations sid, CheckStartTime]
        @ trace_of (purchaseTicketWithTransaction newId sid (prepareTicketData dto) db)}"
  by (simp add: purchaseTicket_def trace_of_def split: option.splits prod.splits)




text \<open>
  C3. The cancellation of the purchased ticket \<open>t1\<close> of the small store, before its
  showtime starts: the ticket and its showtime are read, the status is written and the
  counter decremented, and no lock on the showtime is requested at any point.
\<close>

theorem cancel_trace_has_no_lock:
  "trace_of (cancelTicket 1000 ''t1'' ex_db) =
     [FindTicketWithShowtimeDetails ''t1'', CheckStartTime, CheckStatus, Begin,
      ReadTicket ''t1'', CheckStatus, UpdateTicketStatus ''t1'', DecrementSold ''s1'',
      ReadTicket ''t1'', Commit]
   \<and> LockShowtime ''s1'' \<notin> set (trace_of (cancelTicket 1000 ''t1'' ex_db))"
  by code_simp

lemma count_after_purchase:
  "countTicketsByShowtime (incrementSold sid n (db\<lparr>tickets := tickets db @ [newTicket newId sid td sh]\<rparr>)) x
   = countTicketsByShowtime db x + (if x = sid then 1 else 0)"
  by (simp add: countTicketsByShowtime_def newTicket_def)

lemma showtimes_incrementSold:
  "showtimes (incrementSold sid n db) =
     map (\<lambda>s. if s_id s = sid then s\<lparr>sold_tickets := sold_tickets s + n\<rparr> else s) (showtimes db)"
  by (simp add: incrementSold_def)

lemma consistent_after_purchase:
  assumes "counter_consistent db"
  shows "counter_consistent
           (incrementSold sid 1 (db\<lparr>tickets := tickets db @ [newTicket newId sid td sh]\<rparr>))"
  using assms
  unfolding counter_consistent_def list_all_iff
  by (auto simp: count_after_purchase showtimes_incrementSold simp del: tickets_incrementSold)

lemma purchaseTx_consistent:
  assumes "counter_consistent db"
  shows "counter_consistent (store_of (purchaseTicketWithTransaction newId sid td db))"
  by (cases rule: purchaseTx_cases [where db=db and sid=sid and seat="dto_seat_number td"])
     (simp_all add: purchaseTx_not_found purchaseTx_no_theater purchaseTx_sold_out
        purchaseTx_seat_taken purchaseTx_ok store_of_def assms consistent_after_purchase)

lemma count_after_cancel_list:
  assumes "distinct (map t_id ts)" and "find (\<lambda>t. t_id t = tid) ts = Some t"
    and "status t = PURCHASED"
  shows "length (filter (\<lambda>u. showtime_id u = x \<and> status u = PURCHASED)
            (map (\<lambda>u. if t_id u = tid then u\<lparr>status := CANCELLED\<rparr> else u) ts))
          + (if x = showtime_id t then 1 else 0)
         = length (filter (\<lambda>u. showtime_id u = x \<and> status u = PURCHASED) ts)"
  using assms
proof (induction ts)
  case Nil
  then show ?case by simp
next
  case (Cons h ts)
  show ?case
  proof (cases "t_id h = tid")
    case True
    with Cons.prems have h: "h = t" by simp
    from True Cons.prems(1) have "\<forall>u\<in>set ts. t_id u \<noteq> tid" by (auto simp: image_iff)
    then have "map (\<lambda>u. if t_id u = tid then u\<lparr>status := CANCELLED\<rparr> else u) ts = ts"
      by (simp add: map_idI)
    with True h Cons.prems(3) show ?thesis by simp
  next
    case False
    with Cons.prems have "find (\<lambda>t. t_id t = tid) ts = Some t" "distinct (map t_id ts)"
      by simp_all
    from Cons.IH [OF this(2) this(1) Cons.prems(3)] False show ?thesis
      by (auto split: if_splits)
  qed
qed

lemma count_after_cancel:
  assumes "distinct (map t_id (tickets db))" and "find (\<lambda>t. t_id t = tid) (tickets db) = Some t"
    and "status t = PURCHASED"
  shows "countTicketsByShowtime
           (incrementSold sid' n
              (db\<lparr>tickets := map (\<lambda>u. if t_id u = tid then u\<lparr>status := CANCELLED\<rparr> else u) (tickets db)\<rparr>)) x
          + (if x = showtime_id t then 1 else 0)
         = countTicketsByShowtime db x"
  using count_after_cancel_list [OF assms, of x]
  by (simp add: countTicketsByShowtime_def)

lemma consistent_after_cancel:
  assumes "distinct (map t_id (tickets db))" and "find (\<lambda>t. t_id t = tid) (tickets db) = Some t"
    and "status t = PURCHASED" and "counter_consistent db"
  shows "counter_consistent
           (incrementSold (showtime_id t) (- 1)
              (db\<lparr>tickets := map (\<lambda>u. if t_id u = tid then u\<lparr>status := CANCELLED\<rparr> else u) (tickets db)\<rparr>))"
proof -
  let ?db' = "incrementSold (showtime_id t) (- 1)
              (db\<lparr>tickets := map (\<lambda>u. if t_id u = tid then u\<lparr>status := CANCELLED\<rparr> else u) (tickets db)\<rparr>)"
  have c: "int (countTicketsByShowtime ?db' x) = int (countTicketsByShowtime db x)
             - (if x = showtime_id t then 1 else 0)" for x
    using count_after_cancel [OF assms(1-3), of "showtime_id t" "- 1" x] by (simp split: if_splits)
  have s: "showtimes ?db' = map (\<lambda>s. if s_id s = showtime_id t
              then s\<lparr>sold_tickets := sold_tickets s + (- 1)\<rparr> else s) (showtimes db)"
    by (simp add: showtimes_incrementSold)
  show ?thesis
    using assms(4)
    unfolding counter_consistent_def list_all_iff s
    by (auto simp: c)
qed

lemma cancelTx_consistent:
  assumes "distinct (map t_id (tickets db))" and "counter_consistent db"
  shows "counter_consistent (store_of (cancelTicketWithTransaction tid db))"
proof (cases rule: cancelTx_cases [where tid=tid and db=db])
  case not_found
  then show ?thesis using assms by (simp add: cancelTx_not_found store_of_def)
next
  case (not_purchased t)
  then show ?thesis using assms by (simp add: cancelTx_not_purchased store_of_def)
next
  case (no_showtime t)
  then show ?thesis using assms by (simp add: cancelTx_no_showtime store_of_def)
next
  case (ok t sh)
  then show ?thesis
    using consistent_after_cancel [OF assms(1) ok(1) ok(2) assms(2)]
    by (simp add: cancelTx_ok store_of_def)
qed

lemma cancelTicket_store:
  "store_of (cancelTicket now tid db) = db \<or>
   store_of (cancelTicket now tid db) = store_of (cancelTicketWithTransaction tid db)"
  by (auto simp: cancelTicket_def store_of_def split: option.splits prod.splits)



lemma conflict_condition:
  "(list_ex (\<lambda>t. th_id t = theater_id s \<and> th_id t = th) ths
      \<and> start_time s < e1 \<and> end_time s > s1
      \<and> (if truthy ex then Some (s_id s) \<noteq> ex else True))
   \<longleftrightarrow> (theater_id s = th \<and> th \<in> th_id ` set ths
        \<and> spec_overlap s1 e1 (start_time s) (end_time s)
        \<and> (truthy ex \<longrightarrow> Some (s_id s) \<noteq> ex))"
  by (auto simp: list_ex_iff spec_overlap_def)

lemma findConflicting_find:
  "findConflictingShowtime db th s1 e1 ex =
     find (\<lambda>s. theater_id s = th \<and> th \<in> th_id ` set (theaters db)
              \<and> spec_overlap s1 e1 (start_time s) (end_time s)
              \<and> (truthy ex \<longrightarrow> Some (s_id s) \<noteq> ex)) (showtimes db)"
  unfolding findConflictingShowtime_def conflict_condition ..

lemma findConflicting_Some:
  assumes "findConflictingShowtime db th s1 e1 ex = Some s"
  shows "s \<in> set (showtimes db) \<and> theater_id s = th \<and> th \<in> th_id ` set (theaters db)
       \<and> spec_overlap s1 e1 (start_time s) (end_time s) \<and> (truthy ex \<longrightarrow> Some (s_id s) \<noteq> ex)"
proof -
  from assms obtain i where "i < length (showtimes db)" and s: "s = showtimes db ! i"
    and p: "theater_id (showtimes db ! i) = th \<and> th \<in> th_id ` set (theaters db)
        \<and> spec_overlap s1 e1 (start_time (showtimes db ! i)) (end_time (showtimes db ! i))
        \<and> (truthy ex \<longrightarrow> Some (s_id (showtimes db ! i)) \<noteq> ex)"
    unfolding findConflicting_find find_Some_iff by blast
  then have "s \<in> set (showtimes db)" by simp
  with p s show ?thesis by simp
qed

lemma findConflicting_None:
  "findConflictingShowtime db th s1 e1 ex = None \<longleftrightarrow>
     \<not> (\<exists>s\<in>set (showtimes db). theater_id s = th \<and> th \<in> th_id ` set (theaters db)
           \<and> spec_overlap s1 e1 (start_time s) (end_time s)
           \<and> (truthy ex \<longrightarrow> Some (s_id s) \<noteq> ex))"
  unfolding findConflicting_find find_None_iff by blast

text \<open>
  C6. \<open>findConflictingShowtime\<close> reports a showtime exactly when the table has a
  showtime of the given theater, other than the excluded one, whose interval overlaps the
  candidate interval in the specification's sense (\<open>s1 < e2\<close> and \<open>s2 < e1\<close>). The
  showtime it reports is such a one: in particular its end is not the candidate's start
  and its start is not the candidate's end (back-to-back showtimes are not reported),
  and its id is not the (non-empty) id supplied as \<open>excludeId\<close>.
\<close>

theorem findConflictingShowtime_overlap:
  "(findConflictingShowtime db th s1 e1 ex \<noteq> None \<longleftrightarrow>
      (\<exists>s\<in>set (showtimes db). theater_id s = th \<and> th \<in> th_id ` set (theaters db)
          \<and> spec_overlap s1 e1 (start_time s) (end_time s)
          \<and> (truthy ex \<longrightarrow> Some (s_id s) \<noteq> ex)))
   \<and> (\<forall>s. findConflictingShowtime db th s1 e1 ex = Some s \<longrightarrow>
          s \<in> set (showtimes db) \<and> theater_id s = th
          \<and> spec_overlap s1 e1 (start_time s) (end_time s)
          \<and> end_time s \<noteq> s1 \<and> start_time s \<noteq> e1
          \<and> (\<forall>x. ex = Some x \<and> x \<noteq> [] \<longrightarrow> s_id s \<noteq> x))"
proof (rule conjI)
  show "findConflictingShowtime db th s1 e1 ex \<noteq> None \<longleftrightarrow>
      (\<exists>s\<in>set (showtimes db). theater_id s = th \<and> th \<in> th_id ` set (theaters db)
          \<and> spec_overlap s1 e1 (start_time s) (end_time s)
          \<and> (truthy ex \<longrightarrow> Some (s_id s) \<noteq> ex))"
    by (simp only: findConflicting_None not_not)
  show "\<forall>s. findConflictingShowtime db th s1 e1 ex = Some s \<longrightarrow>
          s \<in> set (showtimes db) \<and> theater_id s = th
          \<and> spec_overlap s1 e1 (start_time s) (end_time s)
          \<and> end_time s \<noteq> s1 \<and> start_time s \<noteq> e1
          \<and> (\<forall>x. ex = Some x \<and> x \<noteq> [] \<longrightarrow> s_id s \<noteq> x)"
  proof (rule allI, rule impI)
    fix s
    assume "findConflictingShowtime db th s1 e1 ex = Some s"
    from findConflicting_Some [OF this]
    show "s \<in> set (showtimes db) \<and> theater_id s = th
          \<and> spec_overlap s1 e1 (start_time s) (end_time s)
          \<and> end_time s \<noteq> s1 \<and> start_time s \<noteq> e1
          \<and> (\<forall>x. ex = Some x \<and> x \<noteq> [] \<longrightarrow> s_id s \<noteq> x)"
      by (auto simp: spec_overlap_def truthy_def)
  qed
qed

theorem findConflictingShowtime_overlap_witness:
  "findConflictingShowtime ex_db ''th1'' 6000 8000 (Some ''s2'') = Some ex_showtime
   \<and> ''s2'' \<noteq> []
   \<and> ex_showtime \<in> set (showtimes ex_db) \<and> theater_id ex_showtime = ''th1''
   \<and> spec_overlap 6000 8000 (start_time ex_showtime) (end_time ex_showtime)
   \<and> s_id ex_showtime \<noteq> ''s2''
   \<and> findConflictingShowtime ex_db ''th1'' 7205000 9000000 None = None
   \<and> findConflictingShowtime ex_db ''th1'' 1000 5000 None = None
   \<and> findConflictingShowtime ex_db ''th1'' 6000 8000 (Some ''s1'') = None"
proof -
  have h1: "findConflictingShowtime ex_db ''th1'' 6000 8000 (Some ''s2'') = Some ex_showtime"
    by code_simp
  have h2: "findConflictingShowtime ex_db ''th1'' 7205000 9000000 None = None" by code_simp
  have h3: "findConflictingShowtime ex_db ''th1'' 1000 5000 None = None" by code_simp
  have h4: "findConflictingShowtime ex_db ''th1'' 6000 8000 (Some ''s1'') = None" by code_simp
  have h5: "''s2'' \<noteq> []" by simp
  have h6: "ex_showtime \<in> set (showtimes ex_db) \<and> theater_id ex_showtime = ''th1''
     \<and> spec_overlap 6000 8000 (start_time ex_showtime) (end_time ex_showtime)
     \<and> s_id ex_showtime \<noteq> ''s2''"
    using h1 h5 findConflictingShowtime_overlap [of ex_db "''th1''" 6000 8000 "Some ''s2''"]
    by blast
  show ?thesis
    using h1 h2 h3 h4 h5 h6 by blast
qed

lemma cancelTicket_of_not_purchased:
  assumes "find (\<lambda>t. t_id t = tid) (tickets db) = Some t" and "status t \<noteq> PURCHASED"
    and "findShowtime db (showtime_id t) = Some sh"
  shows "cancelTicket now tid db =
     (if start_time sh \<le> now
      then (Inl (BadRequestException ''Cannot cancel ticket for past or ongoing showtimes''), db,
            [FindTicketWithShowtimeDetails tid, CheckStartTime])
      else (Inl (BadRequestException ''Only purchased tickets can be cancelled''), db,
            [FindTicketWithShowtimeDetails tid, CheckStartTime, CheckStatus]))"
  using assms by (simp add: cancelTicket_def)

lemma same_id_same_ticket:
  assumes "distinct (map t_id ts)" and "find (\<lambda>t. t_id t = tid) ts = Some t"
    and "u \<in> set ts" and "t_id u = tid"
  shows "u = t"
proof -
  from assms(2) have "t \<in> set ts" and "t_id t = tid"
    by (auto simp: find_Some_iff)
  moreover from assms(1) have "inj_on t_id (set ts)"
    by (simp add: distinct_map)
  ultimately show ?thesis using assms(3,4) by (auto dest: inj_onD)
qed

lemma cancelTx_transitions:
  assumes "distinct (map t_id (tickets db))"
  shows "list_all2 (\<lambda>u u'. u' = u \<or> (status u = PURCHASED \<and> u' = u\<lparr>status := CANCELLED\<rparr>))
           (tickets db) (tickets (store_of (cancelTicketWithTransaction tid db)))"
proof (cases rule: cancelTx_cases [where tid=tid and db=db])
  case not_found
  then show ?thesis by (simp add: cancelTx_not_found store_of_def list_all2_same)
next
  case (not_purchased t)
  then show ?thesis by (simp add: cancelTx_not_purchased store_of_def list_all2_same)
next
  case (no_showtime t)
  then show ?thesis by (simp add: cancelTx_no_showtime store_of_def list_all2_same)
next
  case (ok t sh)
  have "\<forall>u\<in>set (tickets db). t_id u = tid \<longrightarrow> status u = PURCHASED"
    using same_id_same_ticket [OF assms ok(1)] ok(2) by blast
  then show ?thesis
    by (simp add: cancelTx_ok [OF ok] store_of_def list_all2_map2 list_all2_same)
qed

lemma cancelTicket_transitions:
  assumes "distinct (map t_id (tickets db))"
  shows "list_all2 (\<lambda>u u'. u' = u \<or> (status u = PURCHASED \<and> u' = u\<lparr>status := CANCELLED\<rparr>))
           (tickets db) (tickets (store_of (cancelTicket now tid db)))"
  using cancelTicket_store [of now tid db] cancelTx_transitions [OF assms, of tid]
  by (auto simp: list_all2_same)

lemma purchaseTx_tickets:
  "\<exists>new. tickets (store_of (purchaseTicketWithTransaction newId sid td db)) = tickets db @ new
        \<and> list_all (\<lambda>u. status u = PURCHASED) new"
  by (cases rule: purchaseTx_cases [where db=db and sid=sid and seat="dto_seat_number td"])
     (simp_all add: purchaseTx_not_found purchaseTx_no_theater purchaseTx_sold_out
        purchaseTx_seat_taken purchaseTx_ok store_of_def newTicket_def)

lemma purchaseTicket_tickets:
  "\<exists>new. tickets (store_of (purchaseTicket newId now sid dto db)) = tickets db @ new
        \<and> list_all (\<lambda>u. status u = PURCHASED) new"
  using purchaseTicket_store [of newId now sid dto db]
    purchaseTx_tickets [of newId sid "prepareTicketData dto" db]
  by auto




lemma occupied_after_purchase:
  "getOccupiedSeats (incrementSold sid n (db\<lparr>tickets := tickets db @ [newTicket newId sid td sh]\<rparr>)) x
   = getOccupiedSeats db x @ (if x = sid then [dto_seat_number td] else [])"
  by (simp add: getOccupiedSeats_def newTicket_def)

lemma free_seat_not_occupied:
  "findByShowtimeAndSeat db sid seat = None \<Longrightarrow> seat \<notin> set (getOccupiedSeats db sid)"
  by (auto simp: findByShowtimeAndSeat_def getOccupiedSeats_def find_None_iff)

lemma purchaseTx_keeps_seats_distinct:
  assumes "distinct (getOccupiedSeats db x)"
  shows "distinct (getOccupiedSeats (store_of (purchaseTicketWithTransaction newId sid td db)) x)"
proof (cases rule: purchaseTx_cases [where db=db and sid=sid and seat="dto_seat_number td"])
  case not_found
  then show ?thesis using assms by (simp add: purchaseTx_not_found store_of_def)
next
  case (no_theater sh)
  then show ?thesis using assms by (simp add: purchaseTx_no_theater store_of_def)
next
  case (sold_out sh th)
  then show ?thesis using assms by (simp add: purchaseTx_sold_out store_of_def)
next
  case (seat_taken sh th t)
  then show ?thesis using assms by (simp add: purchaseTx_seat_taken store_of_def)
next
  case (ok sh th)
  have st: "store_of (purchaseTicketWithTransaction newId sid td db)
      = incrementSold sid 1 (db\<lparr>tickets := tickets db @ [newTicket newId sid td sh]\<rparr>)"
    by (simp add: purchaseTx_ok [OF ok] store_of_def)
  have "dto_seat_number td \<notin> set (getOccupiedSeats db sid)"
    by (rule free_seat_not_occupied [OF ok(4)])
  then have "distinct (getOccupiedSeats db x @ (if x = sid then [dto_seat_number td] else []))"
    using assms by (cases "x = sid") simp_all
  then show ?thesis
    by (simp only: st occupied_after_purchase)
qed

lemma purchase_keeps_seats_distinct:
  assumes "distinct (getOccupiedSeats db x)"
  shows "distinct (getOccupiedSeats (store_of (purchaseTicket newId now sid dto db)) x)"
  using purchaseTicket_store [of newId now sid dto db] assms
    purchaseTx_keeps_seats_distinct [OF assms, of newId sid "prepareTicketData dto"]
  by auto

text \<open>
  C5. On the store with both seats sold, the ticket update that moves ticket \<open>t2\<close>
  (seat \<open>B-2\<close>) to the seat written \<open>a-1\<close> is accepted, although \<open>A-1\<close> is held by
  the purchased ticket \<open>t1\<close> of the same showtime: the occupancy check looks for the seat
  as written, and the seat is stored upper-cased. Afterwards two purchased tickets of the
  showtime hold seat \<open>A-1\<close>.
\<close>

theorem update_takes_occupied_seat:
  "distinct (getOccupiedSeats ex_db_full ''s1'')
   \<and> findByShowtimeAndSeat ex_db_full ''s1'' ''A-1'' = Some ex_ticket
   \<and> fst (update 1000 ''t2''
            \<lparr>u_customer_name = None, u_customer_email = None, u_seat_number = Some ''a-1'',
             u_status = None\<rparr> ex_db_full)
       = Inr (ex_ticket2\<lparr>seat_number := ''A-1''\<rparr>)
   \<and> getOccupiedSeats
        (snd (update 1000 ''t2''
               \<lparr>u_customer_name = None, u_customer_email = None, u_seat_number = Some ''a-1'',
                u_status = None\<rparr> ex_db_full)) ''s1''
       = [''A-1'', ''A-1'']"
  by code_simp

text \<open>
  C7. On the store with two theaters, the update of showtime \<open>s1\<close> that changes only
  its theater to \<open>th2\<close> does not fail with the scheduling-conflict error, although the
  conflict query for the unchanged interval in \<open>th2\<close>, with \<open>s1\<close> excluded, finds
  showtime \<open>s2\<close>: the query is only run when the movie or the start time is given.
\<close>

theorem update_theater_only_unchecked:
  "findConflictingShowtime ex_db_theaters ''th2'' (start_time ex_showtime) (end_time ex_showtime)
     (Some ''s1'') = Some ex_showtime2
   \<and> fst (update_showtime 1000 1000 ''s1''
            \<lparr>u_movie_id = None, u_theater_id = Some ''th2'', u_start_time = None, u_price = None\<rparr>
            ex_db_theaters)
       \<noteq> Inl (ConflictException
              ''Scheduling conflict: theater already has a showtime during this period'')
   \<and> update_showtime 1000 1000 ''s1''
        \<lparr>u_movie_id = None, u_theater_id = Some ''th2'', u_start_time = None, u_price = None\<rparr>
        ex_db_theaters
       = showtimes_update_repo ''s1''
           \<lparr>d_movie_id = None, d_theater_id = Some ''th2'', d_start_time = None,
            d_end_time = None, d_price = None\<rparr> ex_db_theaters"
  by code_simp

lemma update_showtime_checks_conflict:
  assumes "findShowtime db sid = Some sh" and "now1 < start_time sh"
    and "u_start_time dto = Some st" and "now2 \<le> st"
    and "findMovie db (if truthy (u_movie_id dto) then assign (u_movie_id dto) [] else movie_id sh)
           = Some mv"
    and "findConflictingShowtime db
           (if truthy (u_theater_id dto) then assign (u_theater_id dto) [] else theater_id sh)
           st (addMinutes st (duration mv)) (Some sid) = Some c"
  shows "update_showtime now1 now2 sid dto db =
           (Inl (ConflictException
              ''Scheduling conflict: theater already has a showtime during this period''), db)"
  using assms
  by (simp add: update_showtime_def recalculate_def assign_def Let_def)

lemma matchItems_Rep:
  "matchItems (Rep p lo hi # rs) s \<longleftrightarrow>
     (\<exists>xs ys. s = xs @ ys \<and> lo \<le> length xs \<and> (\<forall>h. hi = Some h \<longrightarrow> length xs \<le> h)
        \<and> list_all p xs \<and> matchItems rs ys)"
proof
  assume "matchItems (Rep p lo hi # rs) s"
  then have "\<exists>k\<in>set [lo ..< Suc (case hi of None \<Rightarrow> length s | Some h \<Rightarrow> min h (length s))].
                list_all p (take k s) \<and> matchItems rs (drop k s)"
    unfolding matchItems.simps item.case list_ex_iff .
  then obtain k where "lo \<le> k" "k < Suc (case hi of None \<Rightarrow> length s | Some h \<Rightarrow> min h (length s))"
    and m: "list_all p (take k s)" "matchItems rs (drop k s)"
    unfolding set_upt by auto
  then have k: "lo \<le> k" "k \<le> length s" "\<forall>h. hi = Some h \<longrightarrow> k \<le> h"
    by (auto split: option.splits)
  have "s = take k s @ drop k s" by simp
  moreover have "length (take k s) = k" using k(2) by simp
  ultimately show "\<exists>xs ys. s = xs @ ys \<and> lo \<le> length xs \<and> (\<forall>h. hi = Some h \<longrightarrow> length xs \<le> h)
        \<and> list_all p xs \<and> matchItems rs ys"
    using k m by metis
next
  assume "\<exists>xs ys. s = xs @ ys \<and> lo \<le> length xs \<and> (\<forall>h. hi = Some h \<longrightarrow> length xs \<le> h)
        \<and> list_all p xs \<and> matchItems rs ys"
  then obtain xs ys where s: "s = xs @ ys" and b: "lo \<le> length xs" "\<forall>h. hi = Some h \<longrightarrow> length xs \<le> h"
    and m: "list_all p xs" "matchItems rs ys"
    by blast
  have "length xs \<in> set [lo ..< Suc (case hi of None \<Rightarrow> length s | Some h \<Rightarrow> min h (length s))]"
    using b s by (auto split: option.splits)
  moreover have "list_all p (take (length xs) s) \<and> matchItems rs (drop (length xs) s)"
    using m s by simp
  ultimately show "matchItems (Rep p lo hi # rs) s"
    unfolding matchItems.simps item.case list_ex_iff by blast
qed

lemma matchItems_Lit:
  "matchItems (Lit x # rs) s \<longleftrightarrow> (\<exists>ys. s = x # ys \<and> matchItems rs ys)"
proof -
  have "(\<exists>xs ys. s = xs @ ys \<and> 1 \<le> length xs \<and> length xs \<le> 1 \<and> list_all (\<lambda>c. c = x) xs
            \<and> matchItems rs ys)
        \<longleftrightarrow> (\<exists>ys. s = x # ys \<and> matchItems rs ys)"
  proof
    assume "\<exists>xs ys. s = xs @ ys \<and> 1 \<le> length xs \<and> length xs \<le> 1 \<and> list_all (\<lambda>c. c = x) xs
            \<and> matchItems rs ys"
    then obtain xs ys where a: "s = xs @ ys" "length xs = 1" "list_all (\<lambda>c. c = x) xs" "matchItems rs ys"
      by force
    from a(2) obtain c where "xs = [c]" by (cases xs) auto
    with a show "\<exists>ys. s = x # ys \<and> matchItems rs ys" by simp
  next
    assume "\<exists>ys. s = x # ys \<and> matchItems rs ys"
    then obtain ys where "s = [x] @ ys" "matchItems rs ys" by auto
    then show "\<exists>xs ys. s = xs @ ys \<and> 1 \<le> length xs \<and> length xs \<le> 1 \<and> list_all (\<lambda>c. c = x) xs
            \<and> matchItems rs ys"
      by (intro exI [of _ "[x]"] exI [of _ ys]) simp
  qed
  then show ?thesis
    unfolding Lit_def matchItems_Rep by simp
qed

lemma matchItems_Nil: "matchItems [] s \<longleftrightarrow> s = []"
  by simp

text \<open>The seat pattern of the source is the seat format of the specification.\<close>

lemma seatRegex_spec: "matchItems seatRegex s \<longleftrightarrow> spec_seat_pattern s"
proof
  assume "matchItems seatRegex s"
  then obtain ls r where 1: "s = ls @ r" "1 \<le> length ls" "length ls \<le> 2" "list_all isAZ ls"
    and "matchItems [Lit CHR ''-'', Rep isDigit 1 (Some 3)] r"
    unfolding seatRegex_def matchItems_Rep by auto
  then obtain r' where 2: "r = CHR ''-'' # r'" and "matchItems [Rep isDigit 1 (Some 3)] r'"
    unfolding matchItems_Lit by auto
  then obtain ds z where 3: "r' = ds @ z" "1 \<le> length ds" "length ds \<le> 3" "list_all isDigit ds"
    "z = []"
    unfolding matchItems_Rep matchItems_Nil by auto
  have "s = ls @ ''-'' @ ds" using 1 2 3 by simp
  moreover have "length ls \<in> {1, 2}" using 1 by auto
  moreover have "length ds \<in> {1, 2, 3}" using 3 by auto
  ultimately show "spec_seat_pattern s"
    unfolding spec_seat_pattern_def using 1(4) 3(4) by blast
next
  assume "spec_seat_pattern s"
  then obtain ls ds where a: "s = ls @ ''-'' @ ds" "length ls \<in> {1, 2}" "length ds \<in> {1, 2, 3}"
    "list_all isAZ ls" "list_all isDigit ds"
    unfolding spec_seat_pattern_def by blast
  have "matchItems [Rep isDigit 1 (Some 3)] ds"
    unfolding matchItems_Rep matchItems_Nil
    using a(3,5) by (intro exI [of _ ds] exI [of _ "[]"]) auto
  then have "matchItems [Lit CHR ''-'', Rep isDigit 1 (Some 3)] (''-'' @ ds)"
    unfolding matchItems_Lit by simp
  then show "matchItems seatRegex s"
    unfolding seatRegex_def matchItems_Rep [of isAZ]
    using a(1,2,4) by (intro exI [of _ ls] exI [of _ "''-'' @ ds"]) auto
qed

lemma isValidSeatNumber_spec: "isValidSeatNumber s \<longleftrightarrow> spec_seat_pattern (toUpperCase s)"
  by (simp add: isValidSeatNumber_def seatRegex_spec)

lemma isAZ_not_space: "isAZ c \<Longrightarrow> \<not> isSpace c"
  by (auto simp: isAZ_def isSpace_def upper_letters_def)

lemma isDigit_not_space: "isDigit c \<Longrightarrow> \<not> isSpace c"
  by (auto simp: isDigit_def isSpace_def digits_def)

lemma trim_id:
  assumes "s \<noteq> []" and "\<not> isSpace (hd s)" and "\<not> isSpace (last s)"
  shows "trim s = s"
proof -
  from assms(1,2) have "dropWhile isSpace s = s" by (cases s) auto
  moreover from assms(1,3) have "dropWhile isSpace (rev s) = rev s"
    by (cases "rev s") (auto simp: last_rev [symmetric] hd_rev)
  ultimately show ?thesis by (simp add: trim_def)
qed

lemma spec_seat_pattern_trim: 
  assumes "spec_seat_pattern s" 
  shows "trim s = s"
proof -
  from assms obtain ls ds where a: "s = ls @ ''-'' @ ds" "length ls \<in> {1, 2}" "length ds \<in> {1, 2, 3}"
    "list_all isAZ ls" "list_all isDigit ds"
    unfolding spec_seat_pattern_def by blast
  from a(2) have ls: "ls \<noteq> []" by auto
  from a(3) have ds: "ds \<noteq> []" by auto
  have "hd s = hd ls" using a(1) ls by simp
  moreover have "isAZ (hd ls)" using a(4) ls by (cases ls) auto
  ultimately have h: "\<not> isSpace (hd s)" by (simp add: isAZ_not_space)
  have "last s = last ds" using a(1) ds by simp
  moreover have "isDigit (last ds)" using a(5) ds by (simp add: list_all_iff)
  ultimately have l: "\<not> isSpace (last s)" by (simp add: isDigit_not_space)
  show ?thesis using a(1) h l by (intro trim_id) auto
qed

lemma isSpace_upperChar: "isSpace (upperChar c) = isSpace c"
  by (simp add: upperChar_def isSpace_def lower_letters_def upper_letters_def)

lemma isSpace_lowerChar: "isSpace (lowerChar c) = isSpace c"
  by (simp add: lowerChar_def isSpace_def lower_letters_def upper_letters_def)

lemma trim_map:
  assumes "\<And>c. isSpace (f c) = isSpace c"
  shows "trim (map f s) = map f (trim s)"
proof -
  have "isSpace \<circ> f = isSpace" using assms by (simp add: fun_eq_iff)
  then show ?thesis
    by (simp add: trim_def dropWhile_map rev_map)
qed

lemma trim_toUpperCase: "trim (toUpperCase s) = toUpperCase (trim s)"
  unfolding toUpperCase_def by (rule trim_map) (rule isSpace_upperChar)

lemma trim_toLowerCase: "trim (toLowerCase s) = toLowerCase (trim s)"
  unfolding toLowerCase_def by (rule trim_map) (rule isSpace_lowerChar)

lemma purchaseTx_success:
  assumes "result_of (purchaseTicketWithTransaction newId sid td db) = Inr (t, sh)"
  shows "t = newTicket newId sid td sh \<and> findShowtime db sid = Some sh
       \<and> store_of (purchaseTicketWithTransaction newId sid td db)
           = incrementSold sid 1 (db\<lparr>tickets := tickets db @ [newTicket newId sid td sh]\<rparr>)"
  using assms
  by (cases rule: purchaseTx_cases [where db=db and sid=sid and seat="dto_seat_number td"])
     (simp_all add: purchaseTx_not_found purchaseTx_no_theater purchaseTx_sold_out
        purchaseTx_seat_taken purchaseTx_ok store_of_def result_of_def)

lemma purchaseTicket_success:
  assumes "result_of (purchaseTicket newId now sid dto db) = Inr t"
  shows "\<exists>sh. findShowtime db sid = Some sh \<and> now < start_time sh
           \<and> isValidEmail (dto_customer_email dto) \<and> isValidSeatNumber (dto_seat_number dto)
           \<and> t = newTicket newId sid (prepareTicketData dto) sh
           \<and> store_of (purchaseTicket newId now sid dto db)
               = incrementSold sid 1 (db\<lparr>tickets := tickets db @ [t]\<rparr>)"
proof (cases "findShowtime db sid")
  case None
  with assms show ?thesis by (simp add: purchaseTicket_def result_of_def)
next
  case (Some sh)
  with assms have c: "now < start_time sh" "isValidEmail (dto_customer_email dto)"
    "isValidSeatNumber (dto_seat_number dto)"
    by (auto simp: purchaseTicket_def result_of_def split: if_splits)
  note run = purchaseTicket_run [OF Some c, of newId]
  from assms have "map_sum (\<lambda>e. e) fst
      (result_of (purchaseTicketWithTransaction newId sid (prepareTicketData dto) db)) = Inr t"
    by (simp add: run result_of_def)
  then obtain sh' where "result_of (purchaseTicketWithTransaction newId sid (prepareTicketData dto) db)
      = Inr (t, sh')"
    by (cases "result_of (purchaseTicketWithTransaction newId sid (prepareTicketData dto) db)") auto
  from purchaseTx_success [OF this] Some c show ?thesis
    by (simp add: run store_of_def)
qed




lemma matchItems_map:
  "matchItems rs (map f s)
     = matchItems (map (\<lambda>r. case r of Rep p lo hi \<Rightarrow> Rep (p \<circ> f) lo hi) rs) s"
proof (induction rs arbitrary: s)
  case Nil
  show ?case by simp
next
  case (Cons r rs)
  obtain p lo hi where r: "r = Rep p lo hi" by (cases r)
  have "list_all p (take k (map f s)) = list_all (p \<circ> f) (take k s)" for k
    by (simp add: take_map list_all_iff)
  moreover have "matchItems rs (drop k (map f s))
      = matchItems (map (\<lambda>r. case r of Rep p lo hi \<Rightarrow> Rep (p \<circ> f) lo hi) rs) (drop k s)" for k
    using Cons.IH [of "drop k s"] by (simp add: drop_map)
  ultimately show ?case
    by (cases hi) (simp_all add: r del: upt_Suc)
qed

lemma lowerChar_at: "lowerChar c = CHR ''@'' \<longleftrightarrow> c = CHR ''@''"
  by (simp add: lowerChar_def lower_letters_def upper_letters_def)

lemma lowerChar_dot: "lowerChar c = CHR ''.'' \<longleftrightarrow> c = CHR ''.''"
  by (simp add: lowerChar_def lower_letters_def upper_letters_def)

lemma emailRegex_lowerChar:
  "map (\<lambda>r. case r of Rep p lo hi \<Rightarrow> Rep (p \<circ> lowerChar) lo hi) emailRegex = emailRegex"
  by (simp add: emailRegex_def Lit_def fun_eq_iff notSpaceAt_def isSpace_lowerChar
      lowerChar_at lowerChar_dot)

lemma isValidEmail_toLowerCase: "isValidEmail (toLowerCase email) = isValidEmail email"
  by (simp add: isValidEmail_def toLowerCase_def matchItems_map emailRegex_lowerChar)

lemma isValidEmail_shape:
  assumes "isValidEmail email"
  shows "\<exists>l d t. email = l @ ''@'' @ d @ ''.'' @ t \<and> l \<noteq> [] \<and> d \<noteq> [] \<and> t \<noteq> []
           \<and> list_all notSpaceAt l \<and> list_all notSpaceAt d \<and> list_all notSpaceAt t"
proof -
  from assms obtain l r1 where 1: "email = l @ r1" "1 \<le> length l" "list_all notSpaceAt l"
    and "matchItems [Lit CHR ''@'', Rep notSpaceAt 1 None, Lit CHR ''.'', Rep notSpaceAt 1 None] r1"
    unfolding isValidEmail_def emailRegex_def matchItems_Rep by auto
  then obtain r2 where 2: "r1 = CHR ''@'' # r2"
    and "matchItems [Rep notSpaceAt 1 None, Lit CHR ''.'', Rep notSpaceAt 1 None] r2"
    unfolding matchItems_Lit by auto
  then obtain d r3 where 3: "r2 = d @ r3" "1 \<le> length d" "list_all notSpaceAt d"
    and "matchItems [Lit CHR ''.'', Rep notSpaceAt 1 None] r3"
    unfolding matchItems_Rep by auto
  then obtain r4 where 4: "r3 = CHR ''.'' # r4" and "matchItems [Rep notSpaceAt 1 None] r4"
    unfolding matchItems_Lit by auto
  then obtain t z where 5: "r4 = t @ z" "1 \<le> length t" "list_all notSpaceAt t" "z = []"
    unfolding matchItems_Rep matchItems_Nil by auto
  have "email = l @ ''@'' @ d @ ''.'' @ t" using 1 2 3 4 5 by simp
  moreover have "l \<noteq> []" "d \<noteq> []" "t \<noteq> []" using 1(2) 3(2) 5(2) by auto
  ultimately show ?thesis using 1(3) 3(3) 5(3) by blast
qed

lemma isValidEmail_trim:
  assumes "isValidEmail email"
  shows "trim email = email"
proof -
  from isValidEmail_shape [OF assms] obtain l d t where
    e: "email = l @ ''@'' @ d @ ''.'' @ t" and n: "l \<noteq> []" "t \<noteq> []"
    and c: "list_all notSpaceAt l" "list_all notSpaceAt t"
    by blast
  have "hd email = hd l" using e n by simp
  moreover have "notSpaceAt (hd l)" using c(1) n(1) by (cases l) auto
  ultimately have h: "\<not> isSpace (hd email)" by (simp add: notSpaceAt_def)
  have "last email = last t" using e n by simp
  moreover have "notSpaceAt (last t)" using c(2) n(2) by (simp add: list_all_iff)
  ultimately have l: "\<not> isSpace (last email)" by (simp add: notSpaceAt_def)
  show ?thesis using e h l by (intro trim_id) auto
qed

lemma findByCustomerEmail_valid:
  assumes "isValidEmail email"
  shows "findByCustomerEmail db email = Inr (findByCustomerEmail_repo db (toLowerCase email))"
proof -
  have "isValidEmail (toLowerCase email)" using assms by (simp add: isValidEmail_toLowerCase)
  then have "trim (toLowerCase email) = toLowerCase email" by (rule isValidEmail_trim)
  with assms show ?thesis by (simp add: findByCustomerEmail_def)
qed




end
